theory Spec2Isabelle
  imports Main
begin

section \<open>The pytest runner of ape: snapshot before a test, revert after it\<close>

text \<open>
  The source is \<^verbatim>\<open>src/ape_test/runners.py\<close>, the class \<^verbatim>\<open>PytestApeRunner\<close>. Its
  hooks talk to three collaborators that are not part of the file: the active provider
  (\<^verbatim>\<open>snapshot\<close>, \<^verbatim>\<open>revert\<close>, \<^verbatim>\<open>connect\<close>, \<^verbatim>\<open>disconnect\<close>), the network manager
  (\<^verbatim>\<open>active_provider\<close>, \<^verbatim>\<open>get_provider_from_choice\<close>) and the logger.

  Every hook is modelled as a function from the runner object (and from what the
  collaborators answer during the call) to three things: what the hook returns or raises,
  the runner object afterwards, and the list of calls it made to its collaborators, in
  the order it made them. A raise is \<open>Inl\<close>, a normal return is \<open>Inr\<close>.
\<close>

subsection \<open>Python values the hooks handle\<close>

text \<open>
  Exceptions. \<^verbatim>\<open>except NotImplementedError\<close> is the only handler of the file, so the
  model tells that class from every other one.
\<close>

datatype exn = NotImplementedError | AttributeError | OtherError string

text \<open>
  A snapshot token is whatever \<^verbatim>\<open>provider.snapshot()\<close> returns. The token type is declared
  outside this file; providers hand out integers (a counter) or strings (a hex id), and
  both are modelled. The source tests the token with \<^verbatim>\<open>if snapshot_id:\<close>, which is
  Python's truth value: an integer is true unless it is 0, a string unless it is empty.
\<close>

datatype SnapshotID = IntID int | StrID string

fun truthy :: "SnapshotID \<Rightarrow> bool" where
  "truthy (IntID n) = (n \<noteq> 0)"
| "truthy (StrID s) = (s \<noteq> [])"

text \<open>
  What the wrapped hook implementations (the test body) produced. The host hands it to a
  \<^verbatim>\<open>hookwrapper=True\<close> generator as a result object sent in at the \<^verbatim>\<open>yield\<close>: an exception
  of the body is a field of that object and is not raised inside the wrapper.
\<close>

datatype outcome = Passed | Failed | Skipped | Raised exn

subsection \<open>The collaborators\<close>

text \<open>
  A provider object: which one it is, and whether it has an attribute named
  \<^verbatim>\<open>snapshot\<close> (what \<^verbatim>\<open>hasattr(provider, "snapshot")\<close> answers).
\<close>

record provider =
  provider_name :: string
  has_snapshot :: bool

text \<open>The calls a hook makes to its collaborators.\<close>

datatype event =
    ProviderSnapshot provider
  | ProviderRevert provider SnapshotID
  | ProviderConnect provider
  | ProviderDisconnect provider
  | NetworksGetProvider string
  | LoggerWarning string
  | TestBody

text \<open>
  The network manager: the attribute \<^verbatim>\<open>active_provider\<close> (\<open>None\<close> is Python's
  \<^verbatim>\<open>None\<close>) and the method \<^verbatim>\<open>get_provider_from_choice\<close>, which returns a provider or
  raises.
\<close>

record NetworkManager =
  active_provider :: "provider option"
  get_provider_from_choice :: "string \<Rightarrow> exn + provider"

text \<open>The pytest configuration: \<^verbatim>\<open>config.getoption("network")\<close>.\<close>

record Config =
  network_option :: string

subsection \<open>The runner object\<close>

text \<open>
  \<^verbatim>\<open>
  def __init__(self, config, project, networks):
      self.config = config
      self.project = project
      self.networks = networks
      self._warned_for_missing_features = False
  \<close>
  The project is never read by the hooks: it is an opaque name here.
\<close>

record PytestApeRunner =
  config :: Config
  project :: string
  networks :: NetworkManager
  warned_for_missing_features :: bool

definition init :: "Config \<Rightarrow> string \<Rightarrow> NetworkManager \<Rightarrow> PytestApeRunner" where
  "init c p n =
     \<lparr>config = c, project = p, networks = n, warned_for_missing_features = False\<rparr>"

text \<open>The two properties \<^verbatim>\<open>_network_choice\<close> and \<^verbatim>\<open>_provider\<close>.\<close>

definition network_choice :: "PytestApeRunner \<Rightarrow> string" where
  "network_choice r = network_option (config r)"

definition provider_of :: "PytestApeRunner \<Rightarrow> provider option" where
  "provider_of r = active_provider (networks r)"

subsection \<open>The one-time warning\<close>

text \<open>
  \<^verbatim>\<open>
  def _warn_for_unimplemented_snapshot(self):
      if self._warned_for_missing_features:
          return
      logger.warning(
          "The connected provider does not support snapshotting. "
          "Tests will not be completely isolated."
      )
      self._warned_for_missing_features = True
  \<close>
\<close>

definition warning_text :: string where
  "warning_text =
     ''The connected provider does not support snapshotting. Tests will not be completely isolated.''"

definition warn_for_unimplemented_snapshot ::
  "PytestApeRunner \<Rightarrow> PytestApeRunner \<times> event list" where
  "warn_for_unimplemented_snapshot r =
     (if warned_for_missing_features r then (r, [])
      else (r\<lparr>warned_for_missing_features := True\<rparr>, [LoggerWarning warning_text]))"

subsection \<open>The wrapper around one test\<close>

text \<open>
  What the collaborators do during one test: what \<^verbatim>\<open>snapshot()\<close> does if it is called,
  what the body produces, and what \<^verbatim>\<open>revert\<close> does if it is called.
\<close>

record test_env =
  snapshot_does :: "exn + SnapshotID"
  body_outcome :: outcome
  revert_does :: "exn + unit"

text \<open>
  The generator up to its \<^verbatim>\<open>yield\<close>. It returns the local variable \<^verbatim>\<open>snapshot_id\<close>
  (\<open>None\<close> is Python's \<^verbatim>\<open>None\<close>), or raises.
  \<^verbatim>\<open>
  snapshot_id = None
  if hasattr(self._provider, "snapshot"):
      try:
          snapshot_id = self._provider.snapshot()
      except NotImplementedError:
          self._warn_for_unimplemented_snapshot()
          pass
  else:
      self._warn_for_unimplemented_snapshot()
  yield
  \<close>
  \<^verbatim>\<open>hasattr(None, "snapshot")\<close> is false, so with no active provider the \<^verbatim>\<open>else\<close> branch
  runs.
\<close>

definition runtest_setup ::
  "PytestApeRunner \<Rightarrow> exn + SnapshotID \<Rightarrow> (exn + SnapshotID option) \<times> PytestApeRunner \<times> event list"
where
  "runtest_setup r snap =
     (case provider_of r of
        None \<Rightarrow>
          (case warn_for_unimplemented_snapshot r of (r1, evs) \<Rightarrow> (Inr None, r1, evs))
      | Some p \<Rightarrow>
          if has_snapshot p then
            (case snap of
               Inr tok \<Rightarrow> (Inr (Some tok), r, [ProviderSnapshot p])
             | Inl NotImplementedError \<Rightarrow>
                 (case warn_for_unimplemented_snapshot r of
                    (r1, evs) \<Rightarrow> (Inr None, r1, ProviderSnapshot p # evs))
             | Inl e \<Rightarrow> (Inl e, r, [ProviderSnapshot p]))
          else
            (case warn_for_unimplemented_snapshot r of (r1, evs) \<Rightarrow> (Inr None, r1, evs)))"

text \<open>
  The generator after its \<^verbatim>\<open>yield\<close>.
  \<^verbatim>\<open>
  if snapshot_id:
      self._provider.revert(snapshot_id)
  \<close>
  \<^verbatim>\<open>self._provider\<close> is read again here; on \<^verbatim>\<open>None\<close> the attribute access raises.
\<close>

definition runtest_teardown ::
  "SnapshotID option \<Rightarrow> PytestApeRunner \<Rightarrow> exn + unit \<Rightarrow> (exn + unit) \<times> PytestApeRunner \<times> event list"
where
  "runtest_teardown snapshot_id r revert_result =
     (case snapshot_id of
        None \<Rightarrow> (Inr (), r, [])
      | Some tok \<Rightarrow>
          if truthy tok then
            (case provider_of r of
               None \<Rightarrow> (Inl AttributeError, r, [])
             | Some p \<Rightarrow> (revert_result, r, [ProviderRevert p tok]))
          else (Inr (), r, []))"

text \<open>
  The whole hook, driven the way the host drives a \<^verbatim>\<open>hookwrapper=True\<close> generator: run it
  to the \<^verbatim>\<open>yield\<close>; if that raised, the body is not run and the exception leaves the hook
  call; otherwise run the body, send its outcome in, run the rest, and hand the body's
  outcome on unless the rest raised.
\<close>

definition pytest_runtest_protocol ::
  "PytestApeRunner \<Rightarrow> test_env \<Rightarrow> (exn + outcome) \<times> PytestApeRunner \<times> event list"
where
  "pytest_runtest_protocol r env =
     (case runtest_setup r (snapshot_does env) of
        (Inl e, r1, evs1) \<Rightarrow> (Inl e, r1, evs1)
      | (Inr snapshot_id, r1, evs1) \<Rightarrow>
          (case runtest_teardown snapshot_id r1 (revert_does env) of
             (Inl e, r2, evs2) \<Rightarrow> (Inl e, r2, evs1 @ [TestBody] @ evs2)
           | (Inr u, r2, evs2) \<Rightarrow> (Inr (body_outcome env), r2, evs1 @ [TestBody] @ evs2)))"

text \<open>
  Any sequence of calls of the wrapper on the same runner object. The object keeps its
  attributes from one call to the next whatever a call returned or raised, so the state
  is threaded through all of them; a host that stops at the first raise runs a prefix.
\<close>

fun run_tests :: "PytestApeRunner \<Rightarrow> test_env list \<Rightarrow> PytestApeRunner \<times> event list" where
  "run_tests r [] = (r, [])"
| "run_tests r (env # envs) =
     (case pytest_runtest_protocol r env of
        (res, r1, evs1) \<Rightarrow> (case run_tests r1 envs of (r2, evs2) \<Rightarrow> (r2, evs1 @ evs2)))"

subsection \<open>Collection finish and session finish\<close>

text \<open>
  \<^verbatim>\<open>
  outcome = yield
  if not outcome.get_result() and session.items and not self.networks.active_provider:
      self.networks.active_provider = self.networks.get_provider_from_choice(
          self._network_choice
      )
      self.networks.active_provider.connect()
  \<close>
  \<^verbatim>\<open>outcome.get_result()\<close> raises what the wrapped implementations raised, or returns the
  list of their results, which is false when empty. A provider object is true.
\<close>

record collection_env =
  collection_outcome :: "exn + string list"
  session_items :: "string list"
  connect_does :: "exn + unit"

definition pytest_collection_finish ::
  "PytestApeRunner \<Rightarrow> collection_env \<Rightarrow> (exn + unit) \<times> PytestApeRunner \<times> event list"
where
  "pytest_collection_finish r env =
     (case collection_outcome env of
        Inl e \<Rightarrow> (Inl e, r, [])
      | Inr res \<Rightarrow>
          if res = [] \<and> session_items env \<noteq> [] \<and> active_provider (networks r) = None then
            (case get_provider_from_choice (networks r) (network_choice r) of
               Inl e \<Rightarrow> (Inl e, r, [NetworksGetProvider (network_choice r)])
             | Inr p \<Rightarrow>
                 (connect_does env,
                  r\<lparr>networks := (networks r)\<lparr>active_provider := Some p\<rparr>\<rparr>,
                  [NetworksGetProvider (network_choice r), ProviderConnect p]))
          else (Inr (), r, []))"

text \<open>
  \<^verbatim>\<open>
  def pytest_sessionfinish(self):
      if self._provider is not None:
          self._provider.disconnect()
  \<close>
\<close>

definition pytest_sessionfinish ::
  "PytestApeRunner \<Rightarrow> exn + unit \<Rightarrow> (exn + unit) \<times> PytestApeRunner \<times> event list"
where
  "pytest_sessionfinish r disc =
     (case provider_of r of
        None \<Rightarrow> (Inr (), r, [])
      | Some p \<Rightarrow> (disc, r, [ProviderDisconnect p]))"

subsection \<open>A session\<close>

text \<open>
  The hooks in the order the host calls them in one session: collection finish, then
  the wrapper once for every test that is run, then session finish, once.
\<close>

definition session ::
  "PytestApeRunner \<Rightarrow> collection_env \<Rightarrow> test_env list \<Rightarrow> exn + unit \<Rightarrow> PytestApeRunner \<times> event list"
where
  "session r cenv envs disc =
     (case pytest_collection_finish r cenv of
        (res1, r1, evs1) \<Rightarrow>
          (case run_tests r1 envs of
             (r2, evs2) \<Rightarrow>
               (case pytest_sessionfinish r2 disc of
                  (res3, r3, evs3) \<Rightarrow> (r3, evs1 @ evs2 @ evs3))))"

subsection \<open>Reading a list of calls\<close>

definition is_warning :: "event \<Rightarrow> bool" where
  "is_warning e = (case e of LoggerWarning s \<Rightarrow> True | _ \<Rightarrow> False)"

definition is_connect :: "event \<Rightarrow> bool" where
  "is_connect e = (case e of ProviderConnect p \<Rightarrow> True | _ \<Rightarrow> False)"

definition is_disconnect :: "event \<Rightarrow> bool" where
  "is_disconnect e = (case e of ProviderDisconnect p \<Rightarrow> True | _ \<Rightarrow> False)"

subsection \<open>Objects for the examples\<close>

definition test_provider :: provider where
  "test_provider = \<lparr>provider_name = ''test'', has_snapshot = True\<rparr>"

definition plain_provider :: provider where
  "plain_provider = \<lparr>provider_name = ''geth'', has_snapshot = False\<rparr>"

definition example_networks :: "provider option \<Rightarrow> NetworkManager" where
  "example_networks po =
     \<lparr>active_provider = po,
      get_provider_from_choice =
        (\<lambda>choice. if choice = ''::test'' then Inr test_provider
                  else Inl (OtherError ''NetworkNotFoundError''))\<rparr>"

definition example_runner :: "provider option \<Rightarrow> PytestApeRunner" where
  "example_runner po = init \<lparr>network_option = ''::test''\<rparr> ''project'' (example_networks po)"

definition example_test :: "exn + SnapshotID \<Rightarrow> outcome \<Rightarrow> test_env" where
  "example_test snap out = \<lparr>snapshot_does = snap, body_outcome = out, revert_does = Inr ()\<rparr>"

lemmas example_defs =
  test_provider_def plain_provider_def example_networks_def example_runner_def
  example_test_def init_def provider_of_def network_choice_def

lemmas event_defs =
  is_warning_def is_connect_def is_disconnect_def

section \<open>What every call of the wrapper does\<close>

text \<open>
  The wrapper writes one attribute of the runner, the flag, and only sets it. The calls
  it makes hold a warning exactly when the flag went from false to true, and never a
  connect or a disconnect.
\<close>

lemma setup_frame:
  "runtest_setup r snap = (res, r1, evs) \<Longrightarrow>
     r1 = r\<lparr>warned_for_missing_features := warned_for_missing_features r1\<rparr> \<and>
     (warned_for_missing_features r \<longrightarrow> warned_for_missing_features r1) \<and>
     filter is_warning evs =
       (if \<not> warned_for_missing_features r \<and> warned_for_missing_features r1
        then [LoggerWarning warning_text] else []) \<and>
     filter is_disconnect evs = [] \<and> filter is_connect evs = []"
  by (auto simp: runtest_setup_def warn_for_unimplemented_snapshot_def event_defs
      split: option.splits if_splits sum.splits exn.splits)

lemma teardown_frame:
  "runtest_teardown sid r rv = (res, r1, evs) \<Longrightarrow>
     r1 = r \<and> filter is_warning evs = [] \<and> filter is_disconnect evs = [] \<and>
     filter is_connect evs = []"
  by (auto simp: runtest_teardown_def event_defs split: option.splits if_splits)

lemma protocol_frame:
  assumes "pytest_runtest_protocol r env = (res, r1, evs)"
  shows "r1 = r\<lparr>warned_for_missing_features := warned_for_missing_features r1\<rparr> \<and>
     (warned_for_missing_features r \<longrightarrow> warned_for_missing_features r1) \<and>
     filter is_warning evs =
       (if \<not> warned_for_missing_features r \<and> warned_for_missing_features r1
        then [LoggerWarning warning_text] else []) \<and>
     filter is_disconnect evs = [] \<and> filter is_connect evs = []"
proof -
  obtain sres rs es where s: "runtest_setup r (snapshot_does env) = (sres, rs, es)"
    by (cases "runtest_setup r (snapshot_does env)") auto
  note sf = setup_frame [OF s]
  show ?thesis
  proof (cases sres)
    case (Inl e)
    with s assms have "r1 = rs" "evs = es"
      by (simp_all add: pytest_runtest_protocol_def)
    with sf show ?thesis by simp
  next
    case (Inr sid)
    obtain tres rt et where t: "runtest_teardown sid rs (revert_does env) = (tres, rt, et)"
      by (cases "runtest_teardown sid rs (revert_does env)") auto
    note tf = teardown_frame [OF t]
    from s t Inr assms have "r1 = rt" "evs = es @ [TestBody] @ et"
      by (auto simp: pytest_runtest_protocol_def split: sum.splits)
    with sf tf show ?thesis by (simp add: event_defs)
  qed
qed

lemma run_tests_frame:
  "run_tests r envs = (r1, evs) \<Longrightarrow>
     r1 = r\<lparr>warned_for_missing_features := warned_for_missing_features r1\<rparr> \<and>
     (warned_for_missing_features r \<longrightarrow> warned_for_missing_features r1) \<and>
     filter is_warning evs =
       (if \<not> warned_for_missing_features r \<and> warned_for_missing_features r1
        then [LoggerWarning warning_text] else []) \<and>
     filter is_disconnect evs = [] \<and> filter is_connect evs = []"
proof (induction envs arbitrary: r r1 evs)
  case Nil
  then show ?case by simp
next
  case (Cons env envs)
  obtain res ra ea where a: "pytest_runtest_protocol r env = (res, ra, ea)"
    by (cases "pytest_runtest_protocol r env") auto
  obtain rb eb where b: "run_tests ra envs = (rb, eb)"
    by (cases "run_tests ra envs") auto
  from Cons.prems a b have e: "r1 = rb" "evs = ea @ eb" by simp_all
  note pf = protocol_frame [OF a]
  note ih = Cons.IH [OF b]
  have "rb = r\<lparr>warned_for_missing_features := warned_for_missing_features rb\<rparr>"
    using pf ih by (metis PytestApeRunner.update_convs(4) PytestApeRunner.surjective)
  then show ?case using pf ih e by auto
qed

lemma run_tests_append:
  "run_tests r (envs @ later) =
     (case run_tests r envs of
        (r1, evs1) \<Rightarrow> (case run_tests r1 later of (r2, evs2) \<Rightarrow> (r2, evs1 @ evs2)))"
  by (induction envs arbitrary: r) (auto split: prod.splits)

text \<open>
  With a token that is true for Python, the wrapper calls \<^verbatim>\<open>snapshot\<close>, lets the body
  run, and calls \<^verbatim>\<open>revert\<close> with that token, whatever the body produced.
\<close>

lemma protocol_truthy_token:
  "provider_of r = Some p \<Longrightarrow> has_snapshot p \<Longrightarrow> snapshot_does env = Inr tok \<Longrightarrow> truthy tok \<Longrightarrow>
   pytest_runtest_protocol r env =
     (case revert_does env of Inl e \<Rightarrow> Inl e | Inr u \<Rightarrow> Inr (body_outcome env),
      r, [ProviderSnapshot p, TestBody, ProviderRevert p tok])"
  by (simp add: pytest_runtest_protocol_def runtest_setup_def runtest_teardown_def
      split: sum.splits)

text \<open>A token handed to \<^verbatim>\<open>revert\<close> is the one \<^verbatim>\<open>snapshot\<close> returned in this very call.\<close>

lemma protocol_revert_token:
  "pytest_runtest_protocol r env = (res, r1, evs) \<Longrightarrow> ProviderRevert p tok \<in> set evs \<Longrightarrow>
   snapshot_does env = Inr tok \<and> truthy tok \<and> provider_of r = Some p"
  by (auto simp: pytest_runtest_protocol_def runtest_setup_def runtest_teardown_def
      warn_for_unimplemented_snapshot_def
      split: option.splits if_splits sum.splits exn.splits)

lemma collection_finish_frame:
  "pytest_collection_finish r env = (res, r1, evs) \<Longrightarrow>
     filter is_disconnect evs = [] \<and> filter is_warning evs = [] \<and>
     warned_for_missing_features r1 = warned_for_missing_features r"
  by (auto simp: pytest_collection_finish_def event_defs split: sum.splits if_splits)

lemma sessionfinish_frame:
  "pytest_sessionfinish r disc = (res, r1, evs) \<Longrightarrow> r1 = r \<and> filter is_warning evs = []"
  by (auto simp: pytest_sessionfinish_def event_defs split: option.splits)

section \<open>The claims\<close>

subsection \<open>Revert after the body\<close>

text \<open>
  Claim C1: in every wrapping in which a snapshot token was recorded, \<^verbatim>\<open>revert\<close> is
  executed with it after the test body, on every exit path of the body.

  The body's exit path makes no difference (lemma \<open>protocol_truthy_token\<close> holds for
  every outcome), but the token does: the source tests \<^verbatim>\<open>if snapshot_id:\<close>, so a recorded
  token that is false for Python is never reverted. Here \<^verbatim>\<open>snapshot()\<close> returns the
  integer 0, the body passes, and the wrapper returns without a call of \<^verbatim>\<open>revert\<close>.
\<close>

theorem falsy_token_is_not_reverted:
  "pytest_runtest_protocol (example_runner (Some test_provider))
     (example_test (Inr (IntID 0)) Passed) =
   (Inr Passed, example_runner (Some test_provider), [ProviderSnapshot test_provider, TestBody])"
  by (simp add: pytest_runtest_protocol_def runtest_setup_def runtest_teardown_def example_defs)

text \<open>
  Claim C3: \<^verbatim>\<open>revert\<close> is called with exactly the token this test's \<^verbatim>\<open>snapshot()\<close>
  returned, never with one of an earlier test, and it is called whenever a token was
  recorded.

  A token passed to \<^verbatim>\<open>revert\<close> is always this call's own (lemma
  \<open>protocol_revert_token\<close>: \<^verbatim>\<open>snapshot_id\<close> is a local variable, set to \<^verbatim>\<open>None\<close> at
  every entry). The last part fails: with a provider that numbers its snapshots from 0,
  the first test of two is not reverted, the second is.
\<close>

theorem first_counter_token_is_not_reverted:
  "run_tests (example_runner (Some test_provider))
     [example_test (Inr (IntID 0)) Passed, example_test (Inr (IntID 1)) Passed] =
   (example_runner (Some test_provider),
    [ProviderSnapshot test_provider, TestBody,
     ProviderSnapshot test_provider, TestBody, ProviderRevert test_provider (IntID 1)])"
  by (simp add: pytest_runtest_protocol_def runtest_setup_def runtest_teardown_def example_defs)

subsection \<open>No provider, no snapshot support\<close>

text \<open>
  Claim C2: while no provider is active the wrapper is a no-op for isolation: it
  attempts no snapshot and no revert, and it does not trigger the missing-snapshot
  warning, which is for an active provider that lacks or fails the snapshot capability.

  The first two parts hold (lemma \<open>no_provider_no_snapshot_no_revert\<close>), and with
  an active provider the warning is triggered exactly when that provider lacks or fails
  the capability (lemma \<open>warning_with_provider\<close>). The third part fails on the code:
  \<^verbatim>\<open>hasattr(None, "snapshot")\<close> is false, so with \<^verbatim>\<open>self._provider\<close> being
  \<^verbatim>\<open>None\<close> the \<^verbatim>\<open>else\<close> branch runs and logs a message about "the connected
  provider" although none is connected. The other two hooks test the provider against
  \<^verbatim>\<open>None\<close>; the wrapper has no such case. Here no provider is active, the flag is
  unset, and the wrapper logs the warning and sets the flag.
\<close>

theorem no_provider_logs_warning:
  "pytest_runtest_protocol (example_runner None) (example_test (Inr (IntID 1)) Passed) =
     (Inr Passed, (example_runner None)\<lparr>warned_for_missing_features := True\<rparr>,
      [LoggerWarning warning_text, TestBody])"
  by (simp add: pytest_runtest_protocol_def runtest_setup_def runtest_teardown_def
      warn_for_unimplemented_snapshot_def example_defs)

lemma no_provider_no_snapshot_no_revert:
  "provider_of r = None \<Longrightarrow> pytest_runtest_protocol r env = (res, r1, evs) \<Longrightarrow>
   res = Inr (body_outcome env) \<and>
   (\<forall>p. ProviderSnapshot p \<notin> set evs) \<and> (\<forall>p tok. ProviderRevert p tok \<notin> set evs)"
  by (auto simp: pytest_runtest_protocol_def runtest_setup_def runtest_teardown_def
      warn_for_unimplemented_snapshot_def split: if_splits)

lemma warning_with_provider:
  "provider_of r = Some p \<Longrightarrow> pytest_runtest_protocol r env = (res, r1, evs) \<Longrightarrow>
   warned_for_missing_features r1 =
     (warned_for_missing_features r \<or> \<not> has_snapshot p \<or>
      snapshot_does env = Inl NotImplementedError) \<and>
   (filter is_warning evs \<noteq> []) =
     (\<not> warned_for_missing_features r \<and>
      (\<not> has_snapshot p \<or> snapshot_does env = Inl NotImplementedError))"
  by (auto simp: pytest_runtest_protocol_def runtest_setup_def runtest_teardown_def
      warn_for_unimplemented_snapshot_def event_defs
      split: option.splits sum.splits exn.splits if_splits)

text \<open>
  Claim C4: when \<^verbatim>\<open>snapshot()\<close> raises \<^verbatim>\<open>NotImplementedError\<close> the wrapper does not
  raise; it triggers the one-time warning, calls no \<^verbatim>\<open>revert\<close>, lets the body run and
  hands the body's outcome on as it is.
\<close>

theorem not_implemented_snapshot:
  "provider_of r = Some p \<Longrightarrow> has_snapshot p \<Longrightarrow> snapshot_does env = Inl NotImplementedError \<Longrightarrow>
   pytest_runtest_protocol r env =
     (Inr (body_outcome env), r\<lparr>warned_for_missing_features := True\<rparr>,
      ProviderSnapshot p #
      (if warned_for_missing_features r then [] else [LoggerWarning warning_text]) @ [TestBody])"
  by (simp add: pytest_runtest_protocol_def runtest_setup_def runtest_teardown_def
      warn_for_unimplemented_snapshot_def)

theorem not_implemented_snapshot_witness:
  "provider_of (example_runner (Some test_provider)) = Some test_provider \<and>
   has_snapshot test_provider \<and>
   snapshot_does (example_test (Inl NotImplementedError) Failed) = Inl NotImplementedError \<and>
   pytest_runtest_protocol (example_runner (Some test_provider))
       (example_test (Inl NotImplementedError) Failed) =
     (Inr Failed, (example_runner (Some test_provider))\<lparr>warned_for_missing_features := True\<rparr>,
      [ProviderSnapshot test_provider, LoggerWarning warning_text, TestBody])"
  using not_implemented_snapshot [of "example_runner (Some test_provider)" test_provider
      "example_test (Inl NotImplementedError) Failed"]
  by (simp add: example_defs)

text \<open>
  Claim C10: when \<^verbatim>\<open>snapshot()\<close> raises anything but \<^verbatim>\<open>NotImplementedError\<close>, the
  wrapper does not catch it: the exception leaves the wrapper, the flag is untouched, no
  warning is logged and no \<^verbatim>\<open>revert\<close> is called.
\<close>

theorem other_snapshot_failure_propagates:
  "provider_of r = Some p \<Longrightarrow> has_snapshot p \<Longrightarrow> snapshot_does env = Inl e \<Longrightarrow>
   e \<noteq> NotImplementedError \<Longrightarrow>
   pytest_runtest_protocol r env = (Inl e, r, [ProviderSnapshot p])"
  by (cases e) (simp_all add: pytest_runtest_protocol_def runtest_setup_def)

theorem other_snapshot_failure_propagates_witness:
  "provider_of (example_runner (Some test_provider)) = Some test_provider \<and>
   has_snapshot test_provider \<and>
   snapshot_does (example_test (Inl (OtherError ''ConnectionError'')) Passed) =
     Inl (OtherError ''ConnectionError'') \<and>
   OtherError ''ConnectionError'' \<noteq> NotImplementedError \<and>
   pytest_runtest_protocol (example_runner (Some test_provider))
       (example_test (Inl (OtherError ''ConnectionError'')) Passed) =
     (Inl (OtherError ''ConnectionError''), example_runner (Some test_provider),
      [ProviderSnapshot test_provider])"
  using other_snapshot_failure_propagates [of "example_runner (Some test_provider)" test_provider
      "example_test (Inl (OtherError ''ConnectionError'')) Passed" "OtherError ''ConnectionError''"]
  by (simp add: example_defs)

subsection \<open>The warning\<close>

text \<open>
  Claim C5: the missing-snapshot warning is logged at most once in a session. Over any
  sequence of calls of the wrapper at most one warning is logged; once the flag is set
  it stays set and no later call logs the warning again, whatever the later tests do;
  and the other hooks of a session log none.
\<close>

theorem warning_at_most_once:
  "length (filter is_warning (snd (run_tests r envs))) \<le> 1 \<and>
   (warned_for_missing_features r \<longrightarrow>
      warned_for_missing_features (fst (run_tests r envs)) \<and>
      filter is_warning (snd (run_tests r envs)) = []) \<and>
   (warned_for_missing_features (fst (run_tests r envs)) \<longrightarrow>
      warned_for_missing_features (fst (run_tests r (envs @ later))) \<and>
      filter is_warning (snd (run_tests r (envs @ later))) =
        filter is_warning (snd (run_tests r envs))) \<and>
   length (filter is_warning (snd (session r cenv envs disc))) \<le> 1"
proof -
  obtain res0 r0 evs0 where s0: "pytest_collection_finish r cenv = (res0, r0, evs0)"
    by (cases "pytest_collection_finish r cenv") auto
  obtain r3 evs3 where s1: "run_tests r0 envs = (r3, evs3)"
    by (cases "run_tests r0 envs") auto
  obtain res4 r4 evs4 where s2: "pytest_sessionfinish r3 disc = (res4, r4, evs4)"
    by (cases "pytest_sessionfinish r3 disc") auto
  from collection_finish_frame [OF s0] run_tests_frame [OF s1] sessionfinish_frame [OF s2]
  have whole: "length (filter is_warning (snd (session r cenv envs disc))) \<le> 1"
    by (simp add: session_def s0 s1 s2)
  obtain r1 evs1 where a: "run_tests r envs = (r1, evs1)"
    by (cases "run_tests r envs") auto
  obtain r2 evs2 where b: "run_tests r1 later = (r2, evs2)"
    by (cases "run_tests r1 later") auto
  have c: "run_tests r (envs @ later) = (r2, evs1 @ evs2)"
    by (simp add: run_tests_append a b)
  note fa = run_tests_frame [OF a]
  note fb = run_tests_frame [OF b]
  from fa have "length (filter is_warning evs1) \<le> 1" by simp
  moreover from fa have "warned_for_missing_features r \<longrightarrow>
      warned_for_missing_features r1 \<and> filter is_warning evs1 = []" by simp
  moreover from fb have "warned_for_missing_features r1 \<longrightarrow>
      warned_for_missing_features r2 \<and> filter is_warning (evs1 @ evs2) = filter is_warning evs1"
    by simp
  ultimately show ?thesis using whole by (simp add: a c)
qed

text \<open>
  Two runs: a runner whose flag is already set logs nothing; three tests against a
  provider without \<^verbatim>\<open>snapshot\<close> log the warning once, in the first test.
\<close>

theorem warning_at_most_once_witness:
  "warned_for_missing_features ((example_runner None)\<lparr>warned_for_missing_features := True\<rparr>) \<and>
   filter is_warning (snd (run_tests ((example_runner None)\<lparr>warned_for_missing_features := True\<rparr>)
       [example_test (Inl NotImplementedError) Passed])) = [] \<and>
   warned_for_missing_features (fst (run_tests (example_runner (Some plain_provider))
       [example_test (Inl NotImplementedError) Passed])) \<and>
   filter is_warning (snd (run_tests (example_runner (Some plain_provider))
       ([example_test (Inl NotImplementedError) Passed] @
        [example_test (Inl NotImplementedError) Failed, example_test (Inl NotImplementedError) Passed]))) =
     [LoggerWarning warning_text]"
  using warning_at_most_once [of "(example_runner None)\<lparr>warned_for_missing_features := True\<rparr>"
      "[example_test (Inl NotImplementedError) Passed]" "[]"]
    warning_at_most_once [of "example_runner (Some plain_provider)"
      "[example_test (Inl NotImplementedError) Passed]"
      "[example_test (Inl NotImplementedError) Failed, example_test (Inl NotImplementedError) Passed]"]
  by (simp add: pytest_runtest_protocol_def runtest_setup_def runtest_teardown_def
      warn_for_unimplemented_snapshot_def example_defs event_defs)

text \<open>
  Claim C8: whenever the missing-snapshot warning is logged, it is one call of
  \<^verbatim>\<open>logger.warning\<close> with exactly the text "The connected provider does not support
  snapshotting. Tests will not be completely isolated."
\<close>

theorem warning_message_text:
  "snd (warn_for_unimplemented_snapshot r) =
     (if warned_for_missing_features r then []
      else [LoggerWarning
        ''The connected provider does not support snapshotting. Tests will not be completely isolated.'']) \<and>
   (filter is_warning (snd (snd (pytest_runtest_protocol r env))) = [] \<or>
    filter is_warning (snd (snd (pytest_runtest_protocol r env))) =
      [LoggerWarning
        ''The connected provider does not support snapshotting. Tests will not be completely isolated.''])"
proof -
  obtain res r1 evs where a: "pytest_runtest_protocol r env = (res, r1, evs)"
    by (cases "pytest_runtest_protocol r env") auto
  from protocol_frame [OF a] show ?thesis
    by (simp add: a warn_for_unimplemented_snapshot_def warning_text_def)
qed

text \<open>
  Claim C9: the wrapper changes nothing the runner owns but the warning flag: after
  every call the runner's config, project, networks and network choice are what they
  were, and the flag has changed, if at all, from false to true.
\<close>

theorem wrapper_changes_only_the_flag:
  "pytest_runtest_protocol r env = (res, r1, evs) \<Longrightarrow>
     config r1 = config r \<and> project r1 = project r \<and> networks r1 = networks r \<and>
     network_choice r1 = network_choice r \<and>
     (warned_for_missing_features r \<longrightarrow> warned_for_missing_features r1) \<and>
     r1 = r\<lparr>warned_for_missing_features := warned_for_missing_features r1\<rparr>"
proof -
  assume a: "pytest_runtest_protocol r env = (res, r1, evs)"
  from protocol_frame [OF a]
  have f: "r1 = r\<lparr>warned_for_missing_features := warned_for_missing_features r1\<rparr>"
    and m: "warned_for_missing_features r \<longrightarrow> warned_for_missing_features r1"
    by simp_all
  from f have "config r1 = config r" "project r1 = project r" "networks r1 = networks r"
    by (metis PytestApeRunner.select_convs(1) PytestApeRunner.surjective
        PytestApeRunner.update_convs(4),
        metis PytestApeRunner.select_convs(2) PytestApeRunner.surjective
        PytestApeRunner.update_convs(4),
        metis PytestApeRunner.select_convs(3) PytestApeRunner.surjective
        PytestApeRunner.update_convs(4))
  with f m show ?thesis by (simp add: network_choice_def)
qed

text \<open>
  Two calls: one with a provider without \<^verbatim>\<open>snapshot\<close>, where the flag is set, and one
  on a runner whose flag was set before, where it stays set.
\<close>

theorem wrapper_changes_only_the_flag_witness:
  "pytest_runtest_protocol (example_runner (Some plain_provider))
       (example_test (Inr (IntID 1)) Passed) =
     (Inr Passed, (example_runner (Some plain_provider))\<lparr>warned_for_missing_features := True\<rparr>,
      [LoggerWarning warning_text, TestBody]) \<and>
   networks ((example_runner (Some plain_provider))\<lparr>warned_for_missing_features := True\<rparr>) =
     networks (example_runner (Some plain_provider)) \<and>
   pytest_runtest_protocol ((example_runner (Some test_provider))\<lparr>warned_for_missing_features := True\<rparr>)
       (example_test (Inr (IntID 1)) Passed) =
     (Inr Passed, (example_runner (Some test_provider))\<lparr>warned_for_missing_features := True\<rparr>,
      [ProviderSnapshot test_provider, TestBody, ProviderRevert test_provider (IntID 1)]) \<and>
   warned_for_missing_features ((example_runner (Some test_provider))\<lparr>warned_for_missing_features := True\<rparr>)"
proof -
  have a: "pytest_runtest_protocol (example_runner (Some plain_provider))
       (example_test (Inr (IntID 1)) Passed) =
     (Inr Passed, (example_runner (Some plain_provider))\<lparr>warned_for_missing_features := True\<rparr>,
      [LoggerWarning warning_text, TestBody])"
    by (simp add: pytest_runtest_protocol_def runtest_setup_def runtest_teardown_def
        warn_for_unimplemented_snapshot_def example_defs)
  have b: "pytest_runtest_protocol ((example_runner (Some test_provider))\<lparr>warned_for_missing_features := True\<rparr>)
       (example_test (Inr (IntID 1)) Passed) =
     (Inr Passed, (example_runner (Some test_provider))\<lparr>warned_for_missing_features := True\<rparr>,
      [ProviderSnapshot test_provider, TestBody, ProviderRevert test_provider (IntID 1)])"
    by (simp add: pytest_runtest_protocol_def runtest_setup_def runtest_teardown_def example_defs)
  from wrapper_changes_only_the_flag [OF a] wrapper_changes_only_the_flag [OF b] a b
  show ?thesis by simp
qed

subsection \<open>Connecting and disconnecting\<close>

text \<open>
  Claim C6 as stated, that \<^verbatim>\<open>connect()\<close> is called exactly when a test was collected
  and no provider is active, fails: the source also asks
  \<^verbatim>\<open>not outcome.get_result()\<close>. Here another implementation of the hook returned a
  value, one test was collected, no provider is active, and nothing is called.
\<close>

theorem collection_result_blocks_connect_counterexample:
  "session_items \<lparr>collection_outcome = Inr [''done''], session_items = [''test_transfer''],
       connect_does = Inr ()\<rparr> \<noteq> [] \<and>
   provider_of (example_runner None) = None \<and>
   pytest_collection_finish (example_runner None)
     \<lparr>collection_outcome = Inr [''done''], session_items = [''test_transfer''],
      connect_does = Inr ()\<rparr> = (Inr (), example_runner None, [])"
  by (simp add: pytest_collection_finish_def example_defs)

text \<open>
  Claim C6, amended: \<^verbatim>\<open>connect()\<close> is called exactly when the outcome of the wrapped
  collection-finish implementations holds no exception and an empty result, at least
  one test was collected, no provider is active, and the configured network choice
  resolves to a provider; that provider is recorded as active and then connected. With
  no collected test nothing is called and nothing changes, and a call while a provider
  is active is a no-op.
\<close>

theorem collection_finish_connects_lazily:
  "(collection_outcome env = Inr [] \<and> session_items env \<noteq> [] \<and> provider_of r = None \<and>
    get_provider_from_choice (networks r) (network_choice r) = Inr p \<longrightarrow>
      pytest_collection_finish r env =
        (connect_does env, r\<lparr>networks := (networks r)\<lparr>active_provider := Some p\<rparr>\<rparr>,
         [NetworksGetProvider (network_choice r), ProviderConnect p])) \<and>
   (filter is_connect (snd (snd (pytest_collection_finish r env))) \<noteq> []) =
     (collection_outcome env = Inr [] \<and> session_items env \<noteq> [] \<and> provider_of r = None \<and>
      (\<exists>q. get_provider_from_choice (networks r) (network_choice r) = Inr q)) \<and>
   (session_items env = [] \<longrightarrow> snd (pytest_collection_finish r env) = (r, [])) \<and>
   (provider_of r \<noteq> None \<longrightarrow> snd (pytest_collection_finish r env) = (r, []))"
  by (auto simp: pytest_collection_finish_def provider_of_def event_defs split: sum.splits)

theorem collection_finish_connects_lazily_witness:
  "pytest_collection_finish (example_runner None)
     \<lparr>collection_outcome = Inr [], session_items = [''test_transfer''], connect_does = Inr ()\<rparr> =
     (Inr (), example_runner (Some test_provider),
      [NetworksGetProvider ''::test'', ProviderConnect test_provider]) \<and>
   snd (pytest_collection_finish (example_runner None)
     \<lparr>collection_outcome = Inr [], session_items = [], connect_does = Inr ()\<rparr>) =
     (example_runner None, []) \<and>
   snd (pytest_collection_finish (example_runner (Some test_provider))
     \<lparr>collection_outcome = Inr [], session_items = [''test_transfer''], connect_does = Inr ()\<rparr>) =
     (example_runner (Some test_provider), [])"
  using collection_finish_connects_lazily [of
      "\<lparr>collection_outcome = Inr [], session_items = [''test_transfer''], connect_does = Inr ()\<rparr>"
      "example_runner None" test_provider]
    collection_finish_connects_lazily [of
      "\<lparr>collection_outcome = Inr [], session_items = [], connect_does = Inr ()\<rparr>"
      "example_runner None" test_provider]
    collection_finish_connects_lazily [of
      "\<lparr>collection_outcome = Inr [], session_items = [''test_transfer''], connect_does = Inr ()\<rparr>"
      "example_runner (Some test_provider)" test_provider]
  by (simp add: example_defs)

text \<open>
  Claim C7: at session finish \<^verbatim>\<open>disconnect()\<close> is called exactly once if a provider was
  activated, and not at all if none was. This holds of the hook itself and of a whole
  session: the calls of a session hold one disconnect, of the provider that is active
  after collection finish, or none when none is active then.
\<close>

theorem disconnect_once_at_session_finish:
  "(provider_of r = Some p \<longrightarrow> snd (snd (pytest_sessionfinish r disc)) = [ProviderDisconnect p]) \<and>
   (provider_of r = None \<longrightarrow> snd (snd (pytest_sessionfinish r disc)) = []) \<and>
   filter is_disconnect (snd (session r cenv envs disc)) =
     (case provider_of (fst (snd (pytest_collection_finish r cenv))) of
        None \<Rightarrow> [] | Some q \<Rightarrow> [ProviderDisconnect q])"
proof -
  obtain res1 r1 evs1 where a: "pytest_collection_finish r cenv = (res1, r1, evs1)"
    by (cases "pytest_collection_finish r cenv") auto
  obtain r2 evs2 where b: "run_tests r1 envs = (r2, evs2)"
    by (cases "run_tests r1 envs") auto
  note fa = collection_finish_frame [OF a]
  note fb = run_tests_frame [OF b]
  from fb have "networks r2 = networks r1"
    by (metis PytestApeRunner.select_convs(3) PytestApeRunner.surjective
        PytestApeRunner.update_convs(4))
  then have p: "provider_of r2 = provider_of r1" by (simp add: provider_of_def)
  have "filter is_disconnect (snd (session r cenv envs disc)) =
     (case provider_of r1 of None \<Rightarrow> [] | Some q \<Rightarrow> [ProviderDisconnect q])"
    using fa fb p by (simp add: session_def a b pytest_sessionfinish_def event_defs
        split: option.splits)
  then show ?thesis by (simp add: a pytest_sessionfinish_def)
qed

text \<open>
  The hook with and without an active provider; a session of two tests that starts
  with no provider and activates one; a session that collects nothing.
\<close>

theorem disconnect_once_at_session_finish_witness:
  "provider_of (example_runner (Some test_provider)) = Some test_provider \<and>
   snd (snd (pytest_sessionfinish (example_runner (Some test_provider)) (Inr ()))) =
     [ProviderDisconnect test_provider] \<and>
   provider_of (example_runner None) = None \<and>
   snd (snd (pytest_sessionfinish (example_runner None) (Inr ()))) = [] \<and>
   filter is_disconnect (snd (session (example_runner None)
     \<lparr>collection_outcome = Inr [], session_items = [''test_a'', ''test_b''], connect_does = Inr ()\<rparr>
     [example_test (Inr (IntID 1)) Passed, example_test (Inr (IntID 2)) Failed] (Inr ()))) =
     [ProviderDisconnect test_provider] \<and>
   filter is_disconnect (snd (session (example_runner None)
     \<lparr>collection_outcome = Inr [], session_items = [], connect_does = Inr ()\<rparr> [] (Inr ()))) = []"
  using disconnect_once_at_session_finish [of "example_runner (Some test_provider)" test_provider
      "Inr ()" "\<lparr>collection_outcome = Inr [], session_items = [''test_a'', ''test_b''], connect_does = Inr ()\<rparr>" "[]"]
    disconnect_once_at_session_finish [of "example_runner None" test_provider "Inr ()"
      "\<lparr>collection_outcome = Inr [], session_items = [''test_a'', ''test_b''], connect_does = Inr ()\<rparr>"
      "[example_test (Inr (IntID 1)) Passed, example_test (Inr (IntID 2)) Failed]"]
    disconnect_once_at_session_finish [of "example_runner None" test_provider "Inr ()"
      "\<lparr>collection_outcome = Inr [], session_items = [], connect_does = Inr ()\<rparr>" "[]"]
  by (simp add: pytest_collection_finish_def example_defs)

end
